theory Spec2Isabelle
  imports Main "HOL-Library.Word"
begin

section \<open>JavaScript strings\<close>

text \<open>
  A JavaScript string is a sequence of UTF-16 code units. String literals of the
  source are written \<open>lit ''...''\<close>.
\<close>

type_synonym js_string = "16 word list"

definition lit :: "string \<Rightarrow> js_string" where
  "lit s = map of_char s"

text \<open>
  \<open>String.prototype.trim\<close> removes the ECMAScript WhiteSpace and LineTerminator code
  points from both ends: TAB, LF, VT, FF, CR, SP, NBSP, U+1680, U+2000..U+200A, U+2028,
  U+2029, U+202F, U+205F, U+3000 and U+FEFF.
\<close>

definition is_js_whitespace :: "16 word \<Rightarrow> bool" where
  "is_js_whitespace c =
     (c = 0x9 \<or> c = 0xA \<or> c = 0xB \<or> c = 0xC \<or> c = 0xD \<or> c = 0x20 \<or> c = 0xA0 \<or>
      c = 0x1680 \<or> (0x2000 \<le> c \<and> c \<le> 0x200A) \<or> c = 0x2028 \<or> c = 0x2029 \<or>
      c = 0x202F \<or> c = 0x205F \<or> c = 0x3000 \<or> c = 0xFEFF)"

definition js_trim :: "js_string \<Rightarrow> js_string" where
  "js_trim s = rev (dropWhile is_js_whitespace (rev (dropWhile is_js_whitespace s)))"

text \<open>\<open>s || null\<close> for a string \<open>s\<close>: the empty string is falsy.\<close>

definition or_null :: "js_string \<Rightarrow> js_string option" where
  "or_null s = (if s = [] then None else Some s)"

text \<open>
  \<open>d || fallback\<close> where \<open>d\<close> is \<open>err.response?.data?.detail\<close>: \<open>None\<close> stands for
  an absent (undefined or null) detail.
\<close>

definition or_default :: "js_string option \<Rightarrow> js_string \<Rightarrow> js_string" where
  "or_default d fallback = (case d of None \<Rightarrow> fallback | Some s \<Rightarrow> if s = [] then fallback else s)"


section \<open>services/api.js: the axios instance and its response interceptor\<close>

text \<open>
  The request configuration carries the optional \<open>silent\<close> property; an error carries
  the configuration of its request and, when the server answered, the response. Of a
  response the handlers read \<open>status\<close> and \<open>data.detail\<close>.
\<close>

record request_config =
  silent :: "bool option"

record http_response =
  status :: nat
  detail :: "js_string option"

record axios_error =
  config :: "request_config option"
  response :: "http_response option"

text \<open>The part of the browser the interceptor and the auth store write to.\<close>

record browser =
  localStorage :: "js_string \<rightharpoonup> js_string"
  location_href :: js_string

datatype 'a promise = is_Resolved: Resolved 'a | Rejected axios_error

text \<open>The fulfilled callback \<open>(response) => response\<close>.\<close>

definition response_onFulfilled :: "'a \<Rightarrow> 'a" where
  "response_onFulfilled r = r"

text \<open>The rejected callback \<open>(error) => { ... }\<close> of \<open>api.interceptors.response.use\<close>.\<close>

definition response_onRejected :: "axios_error \<Rightarrow> browser \<Rightarrow> browser \<times> 'a promise" where
  "response_onRejected error b =
     (let cfg = (case config error of None \<Rightarrow> \<lparr>silent = None\<rparr> | Some c \<Rightarrow> c);
          isSilent = (silent cfg = Some True);
          st = map_option status (response error)
      in if st = Some 401 then
           (b\<lparr>localStorage := (localStorage b)(lit ''auth-storage'' := None),
              location_href := lit ''/login''\<rparr>,
            Rejected error)
         else if isSilent \<and> (st = Some 404 \<or> st = Some 400) then (b, Rejected error)
         else (b, Rejected error))"

text \<open>
  What the server does with a request: it answers with the data of a successful
  response, or the request fails, with a response (a status outside 2xx) or without one
  (a network error).
\<close>

datatype 'a server_reply = Success 'a | Failure "http_response option"

text \<open>
  A request through the \<open>api\<close> instance: a success passes the fulfilled callback, a
  failure becomes an error with the request's configuration and passes the rejected one.
\<close>

definition api_request :: "request_config \<Rightarrow> 'a server_reply \<Rightarrow> browser \<Rightarrow> browser \<times> 'a promise" where
  "api_request cfg reply b =
     (case reply of
        Success d \<Rightarrow> (b, Resolved (response_onFulfilled d))
      | Failure r \<Rightarrow> response_onRejected \<lparr>config = Some cfg, response = r\<rparr> b)"


section \<open>store/authStore.js and the PrivateRoute of App.js\<close>

text \<open>
  The data of the zustand store. \<open>api.defaults.headers.common\<close> is a map from header
  names to values. \<open>window\<close> is \<open>None\<close> where \<open>typeof window\<close> is \<open>'undefined'\<close>.
\<close>

record 'u auth_store =
  user :: "'u option"
  token :: "js_string option"
  isAuthenticated :: bool

record 'u app =
  store :: "'u auth_store"
  default_headers :: "js_string \<rightharpoonup> js_string"
  window :: "browser option"

text \<open>\<open>useAuthStore.logout\<close>.\<close>

definition logout :: "'u app \<Rightarrow> 'u app" where
  "logout a =
     (let a1 = a\<lparr>default_headers := (default_headers a)(lit ''Authorization'' := None)\<rparr>;
          state = \<lparr>user = None, token = None, isAuthenticated = False\<rparr>;
          a2 = a1\<lparr>store := state\<rparr>
      in case window a2 of
           None \<Rightarrow> a2
         | Some b \<Rightarrow>
             a2\<lparr>window := Some (b\<lparr>localStorage := (localStorage b)(lit ''auth-storage'' := None)\<rparr>)\<rparr>)"

text \<open>What a component renders: its children, or a \<open><Navigate to=... />\<close>.\<close>

datatype 'c element = Children 'c | Navigate js_string

text \<open>\<open>PrivateRoute\<close> of App.js.\<close>

definition PrivateRoute :: "'u auth_store \<Rightarrow> 'c \<Rightarrow> 'c element" where
  "PrivateRoute s children =
     (if isAuthenticated s then Children children else Navigate (lit ''/login''))"


section \<open>Arrays of the builders\<close>

text \<open>
  An array slot holds a string, holds \<open>undefined\<close>, or is empty (a hole of a sparse
  array). The spread \<open>[...xs]\<close> reads a hole as \<open>undefined\<close>; an assignment \<open>a[i] = v\<close>
  past the end extends the array with holes; \<open>filter\<close> does not visit holes.
\<close>

datatype elem = Str js_string | Undefined | Hole

datatype js_exception = TypeError

definition spread :: "elem list \<Rightarrow> elem list" where
  "spread xs = map (\<lambda>e. if e = Hole then Undefined else e) xs"

definition set_index :: "elem list \<Rightarrow> nat \<Rightarrow> elem \<Rightarrow> elem list" where
  "set_index a i v =
     (if i < length a then a[i := v] else a @ replicate (i - length a) Hole @ [v])"

text \<open>\<open>xs.filter((_, i) => i !== index)\<close>.\<close>

definition filter_index_neq :: "elem list \<Rightarrow> nat \<Rightarrow> elem list" where
  "filter_index_neq xs index =
     map snd (filter (\<lambda>(i, e). e \<noteq> Hole \<and> i \<noteq> index) (enumerate 0 xs))"

text \<open>
  \<open>xs.filter(s => s.trim() !== '')\<close>: the callback throws a TypeError at \<open>undefined\<close>,
  which has no \<open>trim\<close>.
\<close>

fun filter_nonblank :: "elem list \<Rightarrow> js_exception + js_string list" where
  "filter_nonblank [] = Inr []"
| "filter_nonblank (Hole # xs) = filter_nonblank xs"
| "filter_nonblank (Undefined # xs) = Inl TypeError"
| "filter_nonblank (Str s # xs) =
     (if js_trim s \<noteq> [] then
        (case filter_nonblank xs of Inl e \<Rightarrow> Inl e | Inr ys \<Rightarrow> Inr (s # ys))
      else filter_nonblank xs)"

text \<open>The strings of an array, in order, and the arrays the events of a builder keep to.\<close>

fun strings_of :: "elem list \<Rightarrow> js_string list" where
  "strings_of [] = []"
| "strings_of (Str s # xs) = s # strings_of xs"
| "strings_of (Undefined # xs) = strings_of xs"
| "strings_of (Hole # xs) = strings_of xs"

definition outline_ok :: "elem list \<Rightarrow> bool" where
  "outline_ok xs =
     (1 \<le> length xs \<and> (Hole \<in> set xs \<longrightarrow> 2 \<le> length (filter (\<lambda>e. e \<noteq> Hole) xs)))"

text \<open>What a handler does to the outside: requests and navigation, in order.\<close>

record refine_body =
  rb_prompt :: "js_string option"
  rb_content :: js_string
  rb_feedback :: "js_string option"
  rb_comments :: "js_string option"

datatype body =
    WordConfig "js_string list" js_string
  | PPTConfig "js_string list" js_string
  | RefineBody refine_body

datatype effect = Get js_string | Post js_string body | Navigated js_string

text \<open>\<open>err.response?.data?.detail\<close>.\<close>

definition error_detail :: "axios_error \<Rightarrow> js_string option" where
  "error_detail err = (case response err of None \<Rightarrow> None | Some r \<Rightarrow> detail r)"


section \<open>pages/WordBuilder.js\<close>

record word_builder =
  wb_projectId :: js_string
  wb_outline :: "elem list"
  wb_context :: js_string
  wb_error :: js_string
  wb_saving :: bool

text \<open>The state of the \<open>useState\<close> initialisers.\<close>

definition WordBuilder_init :: "js_string \<Rightarrow> word_builder" where
  "WordBuilder_init projectId =
     \<lparr>wb_projectId = projectId, wb_outline = [Str []], wb_context = [], wb_error = [],
      wb_saving = False\<rparr>"

definition handleAddSection :: "word_builder \<Rightarrow> word_builder" where
  "handleAddSection st = st\<lparr>wb_outline := spread (wb_outline st) @ [Str []]\<rparr>"

definition handleRemoveSection :: "nat \<Rightarrow> word_builder \<Rightarrow> word_builder" where
  "handleRemoveSection index st =
     (if length (wb_outline st) > 1
      then st\<lparr>wb_outline := filter_index_neq (wb_outline st) index\<rparr>
      else st)"

definition handleSectionChange :: "nat \<Rightarrow> js_string \<Rightarrow> word_builder \<Rightarrow> word_builder" where
  "handleSectionChange index v st =
     (let newOutline = spread (wb_outline st);
          newOutline = set_index newOutline index (Str v)
      in st\<lparr>wb_outline := newOutline\<rparr>)"

text \<open>
  \<open>WordBuilder.handleSave\<close>. \<open>api_post\<close> is the outcome of awaiting \<open>api.post\<close>. The
  result is the state, the requests and navigations made, and the exception the handler
  ends with, if any.
\<close>

definition WordBuilder_handleSave ::
  "(js_string \<Rightarrow> body \<Rightarrow> 'a promise) \<Rightarrow> word_builder
     \<Rightarrow> word_builder \<times> effect list \<times> js_exception option" where
  "WordBuilder_handleSave api_post st =
     (let st1 = st\<lparr>wb_error := [], wb_saving := True\<rparr> in
      case filter_nonblank (wb_outline st) of
        Inl exn \<Rightarrow> (st1, [], Some exn)
      | Inr filteredOutline \<Rightarrow>
         (if length filteredOutline = 0 then
            (st1\<lparr>wb_error := lit ''Please add at least one section'', wb_saving := False\<rparr>,
             [], None)
          else
            let url = lit ''/documents/word/'' @ wb_projectId st @ lit ''/config'';
                b = WordConfig filteredOutline (wb_context st)
            in case api_post url b of
                 Resolved _ \<Rightarrow>
                   (st1\<lparr>wb_saving := False\<rparr>,
                    [Post url b, Navigated (lit ''/projects/'' @ wb_projectId st)], None)
               | Rejected err \<Rightarrow>
                   (st1\<lparr>wb_error := or_default (error_detail err)
                                      (lit ''Failed to save configuration''),
                        wb_saving := False\<rparr>,
                    [Post url b], None)))"

text \<open>The events of the editor: the buttons and inputs of the rendered list.\<close>

datatype builder_event = Add | Remove nat | Change nat js_string

fun word_event :: "word_builder \<Rightarrow> builder_event \<Rightarrow> word_builder" where
  "word_event st Add = handleAddSection st"
| "word_event st (Remove i) = handleRemoveSection i st"
| "word_event st (Change i v) = handleSectionChange i v st"


section \<open>pages/PPTBuilder.js\<close>

record ppt_builder =
  pb_projectId :: js_string
  pb_slideTitles :: "elem list"
  pb_context :: js_string
  pb_error :: js_string
  pb_saving :: bool

definition PPTBuilder_init :: "js_string \<Rightarrow> ppt_builder" where
  "PPTBuilder_init projectId =
     \<lparr>pb_projectId = projectId, pb_slideTitles = [Str []], pb_context = [], pb_error = [],
      pb_saving = False\<rparr>"

definition handleAddSlide :: "ppt_builder \<Rightarrow> ppt_builder" where
  "handleAddSlide st = st\<lparr>pb_slideTitles := spread (pb_slideTitles st) @ [Str []]\<rparr>"

definition handleRemoveSlide :: "nat \<Rightarrow> ppt_builder \<Rightarrow> ppt_builder" where
  "handleRemoveSlide index st =
     (if length (pb_slideTitles st) > 1
      then st\<lparr>pb_slideTitles := filter_index_neq (pb_slideTitles st) index\<rparr>
      else st)"

definition handleSlideChange :: "nat \<Rightarrow> js_string \<Rightarrow> ppt_builder \<Rightarrow> ppt_builder" where
  "handleSlideChange index v st =
     (let newTitles = spread (pb_slideTitles st);
          newTitles = set_index newTitles index (Str v)
      in st\<lparr>pb_slideTitles := newTitles\<rparr>)"

text \<open>\<open>PPTBuilder.handleSave\<close>.\<close>

definition PPTBuilder_handleSave ::
  "(js_string \<Rightarrow> body \<Rightarrow> 'a promise) \<Rightarrow> ppt_builder
     \<Rightarrow> ppt_builder \<times> effect list \<times> js_exception option" where
  "PPTBuilder_handleSave api_post st =
     (let st1 = st\<lparr>pb_error := [], pb_saving := True\<rparr> in
      case filter_nonblank (pb_slideTitles st) of
        Inl exn \<Rightarrow> (st1, [], Some exn)
      | Inr filteredTitles \<Rightarrow>
         (if length filteredTitles = 0 then
            (st1\<lparr>pb_error := lit ''Please add at least one slide'', pb_saving := False\<rparr>,
             [], None)
          else
            let url = lit ''/documents/powerpoint/'' @ pb_projectId st @ lit ''/config'';
                b = PPTConfig filteredTitles (pb_context st)
            in case api_post url b of
                 Resolved _ \<Rightarrow>
                   (st1\<lparr>pb_saving := False\<rparr>,
                    [Post url b, Navigated (lit ''/projects/'' @ pb_projectId st)], None)
               | Rejected err \<Rightarrow>
                   (st1\<lparr>pb_error := or_default (error_detail err)
                                      (lit ''Failed to save configuration''),
                        pb_saving := False\<rparr>,
                    [Post url b], None)))"

fun ppt_event :: "ppt_builder \<Rightarrow> builder_event \<Rightarrow> ppt_builder" where
  "ppt_event st Add = handleAddSlide st"
| "ppt_event st (Remove i) = handleRemoveSlide i st"
| "ppt_event st (Change i v) = handleSlideChange i v st"


section \<open>pages/RefinementEditor.js\<close>

text \<open>
  The route parameters and the state of the editor. \<open>'r\<close> is the type of a refinement
  as the server lists it.
\<close>

record 'r refinement_editor =
  re_projectId :: js_string
  re_type :: js_string
  re_id :: js_string
  re_content :: js_string
  re_prompt :: js_string
  re_feedback :: js_string
  re_comments :: js_string
  re_saving :: bool
  re_refining :: bool
  re_error :: js_string
  re_refinements :: "'r list"

text \<open>The endpoint both handlers post to.\<close>

definition refine_endpoint :: "'r refinement_editor \<Rightarrow> js_string" where
  "refine_endpoint st =
     (if re_type st = lit ''section''
      then lit ''/refinement/section/'' @ re_id st @ lit ''/refine''
      else lit ''/refinement/slide/'' @ re_id st @ lit ''/refine'')"

text \<open>
  \<open>fetchRefinements\<close>: the list of refinements is replaced by the response's data; a
  rejection is caught and ignored. \<open>api_get\<close> is the outcome of awaiting \<open>api.get\<close>.
\<close>

definition fetchRefinements ::
  "(js_string \<Rightarrow> 'r list promise) \<Rightarrow> 'r refinement_editor \<Rightarrow> 'r refinement_editor \<times> effect list" where
  "fetchRefinements api_get st =
     (let endpoint = (if re_type st = lit ''section''
                      then lit ''/refinement/section/'' @ re_id st @ lit ''/refinements''
                      else lit ''/refinement/slide/'' @ re_id st @ lit ''/refinements'')
      in case api_get endpoint of
           Resolved d \<Rightarrow> (st\<lparr>re_refinements := d\<rparr>, [Get endpoint])
         | Rejected err \<Rightarrow> (st, [Get endpoint]))"

text \<open>
  \<open>handleRefine\<close>. The data of the response is the updated item, of which the handler
  reads \<open>content\<close>.
\<close>

definition handleRefine ::
  "(js_string \<Rightarrow> body \<Rightarrow> js_string promise) \<Rightarrow> (js_string \<Rightarrow> 'r list promise)
     \<Rightarrow> 'r refinement_editor \<Rightarrow> 'r refinement_editor \<times> effect list" where
  "handleRefine api_post api_get st =
     (if js_trim (re_prompt st) = [] then
        (st\<lparr>re_error := lit ''Please enter a refinement prompt''\<rparr>, [])
      else
        let st1 = st\<lparr>re_error := [], re_refining := True\<rparr>;
            endpoint = refine_endpoint st;
            b = RefineBody \<lparr>rb_prompt = Some (re_prompt st), rb_content = re_content st,
                  rb_feedback = or_null (re_feedback st),
                  rb_comments = or_null (re_comments st)\<rparr>
        in case api_post endpoint b of
             Resolved new_content \<Rightarrow>
               (let st2 = st1\<lparr>re_content := new_content, re_prompt := []\<rparr>;
                    (st3, fetched) = fetchRefinements api_get st2
                in (st3\<lparr>re_refining := False\<rparr>, Post endpoint b # fetched))
           | Rejected err \<Rightarrow>
               (st1\<lparr>re_error := or_default (error_detail err) (lit ''Failed to refine content''),
                    re_refining := False\<rparr>,
                [Post endpoint b]))"

text \<open>\<open>RefinementEditor.handleSave\<close>.\<close>

definition RefinementEditor_handleSave ::
  "(js_string \<Rightarrow> body \<Rightarrow> 'a promise) \<Rightarrow> (js_string \<Rightarrow> 'r list promise)
     \<Rightarrow> 'r refinement_editor \<Rightarrow> 'r refinement_editor \<times> effect list" where
  "RefinementEditor_handleSave api_post api_get st =
     (let st1 = st\<lparr>re_error := [], re_saving := True\<rparr>;
          endpoint = refine_endpoint st;
          b = RefineBody \<lparr>rb_prompt = None, rb_content = re_content st,
                rb_feedback = or_null (re_feedback st),
                rb_comments = or_null (re_comments st)\<rparr>
      in case api_post endpoint b of
           Resolved _ \<Rightarrow>
             (let (st2, fetched) = fetchRefinements api_get st1
              in (st2\<lparr>re_saving := False\<rparr>,
                  Post endpoint b # fetched @ [Navigated (lit ''/projects/'' @ re_projectId st)]))
         | Rejected err \<Rightarrow>
             (st1\<lparr>re_error := or_default (error_detail err) (lit ''Failed to save''),
                  re_saving := False\<rparr>,
              [Post endpoint b]))"


text \<open>An editor opened on section 1 of project 10, for the examples.\<close>

definition example_editor :: "unit refinement_editor" where
  "example_editor =
     \<lparr>re_projectId = lit ''10'', re_type = lit ''section'', re_id = lit ''1'',
      re_content = lit ''Intro content'', re_prompt = [], re_feedback = [], re_comments = [],
      re_saving = False, re_refining = False, re_error = [], re_refinements = []\<rparr>"


section \<open>pages/ProjectDetail.js: what is shown of a section or slide\<close>




section \<open>The server: content store, refinement log, revision snapshotter\<close>

text \<open>
  The sources hold the client only; the server, which owns the content items, the
  refinement records and the revisions, is modelled from sections 3, 4 and 7 of the
  spec. Identifiers, actors and timestamps are natural numbers; text is a string.
\<close>

text \<open>Modelled from the spec: the error taxonomy of section 7 (the server is missing).\<close>

datatype error = NotFound | Forbidden | ValidationError | GenerationFailed | ConflictError

text \<open>
  Modelled from the spec: the Project of section 3 (the server's data model is missing),
  with the fields the operations read: its id and its owner.
\<close>

record project =
  pr_id :: nat
  pr_owner :: nat

text \<open>Modelled from the spec: the Content Item of section 3 (a Section or a Slide).\<close>

record content_item =
  ci_id :: nat
  ci_project_id :: nat
  ci_ordinal :: nat
  ci_title :: js_string
  ci_content :: "js_string option"
  ci_is_generated :: bool

text \<open>Modelled from the spec: the feedback enumeration of a Refinement Record.\<close>

datatype feedback = NoFeedback | Like | Dislike

text \<open>Modelled from the spec: the Refinement Record of section 3.\<close>

record refinement_record =
  rr_id :: nat
  rr_content_item_id :: nat
  rr_created_at :: nat
  rr_prompt :: "js_string option"
  rr_feedback :: feedback
  rr_comments :: "js_string option"

text \<open>
  Modelled from the spec: the Revision of section 3, with its snapshot of the (title,
  content) pairs of the project's items.
\<close>

record revision =
  rv_id :: nat
  rv_project_id :: nat
  rv_revision_number :: nat
  rv_created_at :: nat
  rv_created_by :: nat
  rv_snapshot :: "(js_string \<times> js_string option) list"

text \<open>
  Modelled from the spec: the relational store behind the three components; the log of
  refinements and the list of revisions are in order of creation.
\<close>

record server =
  projects :: "project list"
  items :: "content_item list"
  refinements :: "refinement_record list"
  revisions :: "revision list"
  next_id :: nat
  now :: nat

text \<open>
  Modelled from the spec: the ownership check of section 4.1, \<open>NotFound\<close> when the
  project does not exist and \<open>Forbidden\<close> when the caller does not own it.
\<close>

definition authorise :: "nat \<Rightarrow> nat \<Rightarrow> server \<Rightarrow> error + project" where
  "authorise actor project_id s =
     (case find (\<lambda>p. pr_id p = project_id) (projects s) of
        None \<Rightarrow> Inl NotFound
      | Some p \<Rightarrow> if pr_owner p = actor then Inr p else Inl Forbidden)"

text \<open>Modelled from the spec: looking a content item up by its id.\<close>

definition find_item :: "nat \<Rightarrow> server \<Rightarrow> content_item option" where
  "find_item item_id s = find (\<lambda>i. ci_id i = item_id) (items s)"

text \<open>
  Modelled from the spec: \<open>get_items(project_id)\<close> of section 4.1, the items of the
  project in the order of their ordinals.
\<close>

definition get_items :: "nat \<Rightarrow> nat \<Rightarrow> server \<Rightarrow> error + content_item list" where
  "get_items actor project_id s =
     (case authorise actor project_id s of
        Inl e \<Rightarrow> Inl e
      | Inr p \<Rightarrow> Inr (sort_key ci_ordinal (filter (\<lambda>i. ci_project_id i = project_id) (items s))))"

text \<open>
  Modelled from the spec: \<open>set_content(item_id, text)\<close> of section 4.1. It fails with
  \<open>NotFound\<close> when the item or its project does not exist and with \<open>Forbidden\<close> when the
  caller does not own the project; it stores the text, and its one side effect on
  \<open>is_generated\<close> is the one 4.1 names: the flag becomes true if the content is
  non-empty, and is otherwise left as it was. It returns the updated item.
\<close>

definition set_content :: "nat \<Rightarrow> nat \<Rightarrow> js_string \<Rightarrow> server \<Rightarrow> error + server \<times> content_item" where
  "set_content actor item_id txt s =
     (case find_item item_id s of
        None \<Rightarrow> Inl NotFound
      | Some it \<Rightarrow>
          (case authorise actor (ci_project_id it) s of
             Inl e \<Rightarrow> Inl e
           | Inr p \<Rightarrow>
               (let it' = it\<lparr>ci_content := Some txt,
                             ci_is_generated := (ci_is_generated it \<or> txt \<noteq> [])\<rparr>
                in Inr (s\<lparr>items := map (\<lambda>i. if ci_id i = item_id then it' else i) (items s)\<rparr>,
                        it'))))"

text \<open>
  Modelled from the spec: the text that \<open>refine\<close> of section 4.3 writes. With a prompt,
  the external text generation \<open>gen\<close> is called with the current content and the prompt
  (\<open>None\<close> is its failure, surfaced as \<open>GenerationFailed\<close>); without one the caller's
  content is taken, with no external call; with neither on an item of empty content the
  operation fails with \<open>ValidationError\<close>, and on an item with content the content stays
  (only feedback and comments are saved).
\<close>

definition refined_text ::
  "(js_string \<Rightarrow> js_string \<Rightarrow> js_string option) \<Rightarrow> js_string \<Rightarrow> js_string option
     \<Rightarrow> js_string option \<Rightarrow> error + js_string" where
  "refined_text gen current prompt content =
     (case prompt of
        Some p \<Rightarrow> (case gen current p of None \<Rightarrow> Inl GenerationFailed | Some t \<Rightarrow> Inr t)
      | None \<Rightarrow>
          (case content of
             Some c \<Rightarrow> Inr c
           | None \<Rightarrow> if current = [] then Inl ValidationError else Inr current))"

text \<open>
  Modelled from the spec: \<open>refine(content_item_id, prompt?, content?, feedback?,
  comments?)\<close> of section 4.3. It updates the item's content through \<open>set_content\<close>,
  then appends a Refinement Record with the prompt (null on a manual edit), the feedback
  and the comments, and returns the updated item and the new record. A failure leaves
  the store as it was.
\<close>

definition refine ::
  "(js_string \<Rightarrow> js_string \<Rightarrow> js_string option) \<Rightarrow> nat \<Rightarrow> nat \<Rightarrow> js_string option
     \<Rightarrow> js_string option \<Rightarrow> feedback option \<Rightarrow> js_string option \<Rightarrow> server
     \<Rightarrow> error + server \<times> content_item \<times> refinement_record" where
  "refine gen actor item_id prompt content fb comments s =
     (case find_item item_id s of
        None \<Rightarrow> Inl NotFound
      | Some it \<Rightarrow>
          (case authorise actor (ci_project_id it) s of
             Inl e \<Rightarrow> Inl e
           | Inr p \<Rightarrow>
               (case refined_text gen (case ci_content it of None \<Rightarrow> [] | Some c \<Rightarrow> c)
                       prompt content of
                  Inl e \<Rightarrow> Inl e
                | Inr txt \<Rightarrow>
                    (case set_content actor item_id txt s of
                       Inl e \<Rightarrow> Inl e
                     | Inr (s1, it') \<Rightarrow>
                         (let r = \<lparr>rr_id = next_id s1, rr_content_item_id = item_id,
                                    rr_created_at = now s1, rr_prompt = prompt,
                                    rr_feedback = (case fb of None \<Rightarrow> NoFeedback | Some f \<Rightarrow> f),
                                    rr_comments = comments\<rparr>
                          in Inr (s1\<lparr>refinements := refinements s1 @ [r],
                                     next_id := next_id s1 + 1, now := now s1 + 1\<rparr>,
                                  it', r))))))"

text \<open>
  Modelled from the spec: the revision numbers a project has, in order of creation.
\<close>

definition revision_numbers :: "nat \<Rightarrow> server \<Rightarrow> nat list" where
  "revision_numbers project_id s =
     map rv_revision_number (filter (\<lambda>r. rv_project_id r = project_id) (revisions s))"

text \<open>
  Modelled from the spec: \<open>create_revision(project_id, actor)\<close> of section 4.4. It reads
  the project's items through 4.1, assigns the greatest existing revision number of the
  project plus one (1 if none exist), and persists the snapshot of (title, content)
  pairs with \<open>created_by = actor\<close>, number and insert in one atomic step. It returns the
  revision.
\<close>

definition create_revision :: "nat \<Rightarrow> nat \<Rightarrow> server \<Rightarrow> error + server \<times> revision" where
  "create_revision actor project_id s =
     (case get_items actor project_id s of
        Inl e \<Rightarrow> Inl e
      | Inr its \<Rightarrow>
          (let existing = revision_numbers project_id s;
               n = (if existing = [] then 1 else Max (set existing) + 1);
               new_revision = \<lparr>rv_id = next_id s, rv_project_id = project_id, rv_revision_number = n,
                      rv_created_at = now s, rv_created_by = actor,
                      rv_snapshot = map (\<lambda>i. (ci_title i, ci_content i)) its\<rparr>
           in Inr (s\<lparr>revisions := revisions s @ [new_revision], next_id := next_id s + 1,
                      now := now s + 1\<rparr>,
                   new_revision)))"

text \<open>Modelled from the spec: fetching a revision again, by its id.\<close>

definition fetch_revision :: "nat \<Rightarrow> server \<Rightarrow> revision option" where
  "fetch_revision revision_id s = find (\<lambda>r. rv_id r = revision_id) (revisions s)"

text \<open>
  Modelled from the spec: the requests the server executes one after another; a request
  that fails leaves the store as it was.
\<close>

datatype request =
    SetContent nat nat js_string
  | Refine nat nat "js_string option" "js_string option" "feedback option" "js_string option"
  | CreateRevision nat nat

fun handle :: "(js_string \<Rightarrow> js_string \<Rightarrow> js_string option) \<Rightarrow> server \<Rightarrow> request \<Rightarrow> server" where
  "handle gen s (SetContent actor item_id txt) =
     (case set_content actor item_id txt s of Inl e \<Rightarrow> s | Inr (s', it) \<Rightarrow> s')"
| "handle gen s (Refine actor item_id prompt content fb comments) =
     (case refine gen actor item_id prompt content fb comments s of
        Inl e \<Rightarrow> s | Inr (s', it, r) \<Rightarrow> s')"
| "handle gen s (CreateRevision actor project_id) =
     (case create_revision actor project_id s of Inl e \<Rightarrow> s | Inr (s', new_revision) \<Rightarrow> s')"

text \<open>Modelled from the spec: a content that is null or the empty text.\<close>

definition empty_content :: "js_string option \<Rightarrow> bool" where
  "empty_content c = (c = None \<or> c = Some [])"







text \<open>
  Modelled from the spec: identifiers are unique, every stored revision has an id below
  the next one to be assigned.
\<close>

definition ids_fresh :: "server \<Rightarrow> bool" where
  "ids_fresh s = (\<forall>r \<in> set (revisions s). rv_id r < next_id s)"

text \<open>
  Modelled from the spec: the scenarios of section 8, a project of actor 1 with an
  item that has content and one that has none, and the mock generator that echoes
  \<open>"shortened: " + content\<close>.
\<close>

definition example_server :: server where
  "example_server =
     \<lparr>projects = [\<lparr>pr_id = 10, pr_owner = 1\<rparr>],
      items = [\<lparr>ci_id = 1, ci_project_id = 10, ci_ordinal = 0, ci_title = lit ''Intro'',
                ci_content = Some (lit ''Intro content''), ci_is_generated = True\<rparr>,
               \<lparr>ci_id = 2, ci_project_id = 10, ci_ordinal = 1, ci_title = lit ''Body'',
                ci_content = None, ci_is_generated = False\<rparr>],
      refinements = [], revisions = [], next_id = 3, now = 0\<rparr>"

definition mock_gen :: "js_string \<Rightarrow> js_string \<Rightarrow> js_string option" where
  "mock_gen current prompt = Some (lit ''shortened: '' @ current)"




section \<open>The response interceptor\<close>

lemma response_onRejected_rejects:
  "snd (response_onRejected error b :: browser \<times> 'a promise) = Rejected error"
  by (simp add: response_onRejected_def Let_def)

text \<open>
  C7, as the spec states it, asks that an error whose request sets \<open>silent\<close> and whose
  status is 404 or 400 is suppressed, so that the caller observes an empty result. At
  such an error the caller of \<open>api\<close> observes the rejection, carrying the error.
\<close>

theorem silent_404_is_rejected:
  "\<not> is_Resolved (snd (api_request \<lparr>silent = Some True\<rparr>
        (Failure (Some \<lparr>status = 404, detail = None\<rparr>) :: unit server_reply)
        \<lparr>localStorage = Map.empty, location_href = lit ''/dashboard''\<rparr>))
   \<and> snd (api_request \<lparr>silent = Some True\<rparr>
        (Failure (Some \<lparr>status = 404, detail = None\<rparr>) :: unit server_reply)
        \<lparr>localStorage = Map.empty, location_href = lit ''/dashboard''\<rparr>)
     = Rejected \<lparr>config = Some \<lparr>silent = Some True\<rparr>,
                    response = Some \<lparr>status = 404, detail = None\<rparr>\<rparr>"
  by (simp add: api_request_def response_onRejected_def Let_def)

text \<open>
  C7, amended: every error, whatever its \<open>silent\<close> flag and status, leaves the response
  interceptor as a rejection carrying the same error, so a failed request through \<open>api\<close>
  is never turned into a result; expected absence is absorbed by the caller:
  \<open>fetchRefinements\<close> catches the rejection and keeps the list of refinements it had.
\<close>

theorem interceptor_rejects_every_error:
  "snd (response_onRejected error b) = (Rejected error :: 'a promise)
   \<and> snd (api_request cfg (Failure r :: 'a server_reply) b)
       = Rejected \<lparr>config = Some cfg, response = r\<rparr>
   \<and> re_refinements (fst (fetchRefinements
         (\<lambda>endpoint. snd (api_request \<lparr>silent = None\<rparr> (Failure r) b)) st))
       = re_refinements st"
  by (simp add: api_request_def fetchRefinements_def response_onRejected_rejects)

text \<open>
  C8: an error with status 401 makes the interceptor remove the key \<open>auth-storage\<close> from
  \<open>localStorage\<close> and set the location to \<open>/login\<close>; an error with any other status,
  or with no response, leaves the browser as it was. The error is rejected either way.
\<close>

theorem interceptor_401_clears_auth:
  "(map_option status (response error) = Some 401 \<longrightarrow>
      (response_onRejected error b :: browser \<times> 'a promise) =
        (b\<lparr>localStorage := (localStorage b)(lit ''auth-storage'' := None),
           location_href := lit ''/login''\<rparr>, Rejected error))
   \<and> (map_option status (response error) \<noteq> Some 401 \<longrightarrow>
      (response_onRejected error b :: browser \<times> 'a promise) = (b, Rejected error))"
  by (cases "response error") (simp_all add: response_onRejected_def Let_def)

theorem interceptor_401_clears_auth_witness:
  "localStorage (fst (response_onRejected
       \<lparr>config = None, response = Some \<lparr>status = 401, detail = None\<rparr>\<rparr>
       \<lparr>localStorage = [lit ''auth-storage'' \<mapsto> lit ''{}''], location_href = lit ''/dashboard''\<rparr>
       :: browser \<times> unit promise)) (lit ''auth-storage'') = None
   \<and> location_href (fst (response_onRejected
       \<lparr>config = None, response = Some \<lparr>status = 401, detail = None\<rparr>\<rparr>
       \<lparr>localStorage = [lit ''auth-storage'' \<mapsto> lit ''{}''], location_href = lit ''/dashboard''\<rparr>
       :: browser \<times> unit promise)) = lit ''/login''
   \<and> fst (response_onRejected
       \<lparr>config = None, response = Some \<lparr>status = 500, detail = None\<rparr>\<rparr>
       \<lparr>localStorage = [lit ''auth-storage'' \<mapsto> lit ''{}''], location_href = lit ''/dashboard''\<rparr>
       :: browser \<times> unit promise)
     = \<lparr>localStorage = [lit ''auth-storage'' \<mapsto> lit ''{}''], location_href = lit ''/dashboard''\<rparr>"
  using
    interceptor_401_clears_auth [where ?'a = unit, of
      "\<lparr>config = None, response = Some \<lparr>status = 401, detail = None\<rparr>\<rparr>"
      "\<lparr>localStorage = [lit ''auth-storage'' \<mapsto> lit ''{}''], location_href = lit ''/dashboard''\<rparr>"]
    interceptor_401_clears_auth [where ?'a = unit, of
      "\<lparr>config = None, response = Some \<lparr>status = 500, detail = None\<rparr>\<rparr>"
      "\<lparr>localStorage = [lit ''auth-storage'' \<mapsto> lit ''{}''], location_href = lit ''/dashboard''\<rparr>"]
  by simp

section \<open>Logging out\<close>

text \<open>
  C10: \<open>logout\<close> leaves the store with \<open>user\<close> and \<open>token\<close> null and \<open>isAuthenticated\<close>
  false, deletes the default \<open>Authorization\<close> header, and removes the key
  \<open>auth-storage\<close> from \<open>localStorage\<close> (where there is a window); with the store it
  leaves, \<open>PrivateRoute\<close> renders the redirect to \<open>/login\<close> whatever its children are.
\<close>

theorem logout_resets_auth:
  "store (logout a) = \<lparr>user = None, token = None, isAuthenticated = False\<rparr>
   \<and> default_headers (logout a) = (default_headers a)(lit ''Authorization'' := None)
   \<and> window (logout a) =
       map_option (\<lambda>b. b\<lparr>localStorage := (localStorage b)(lit ''auth-storage'' := None)\<rparr>)
         (window a)
   \<and> PrivateRoute (store (logout a)) children = Navigate (lit ''/login'')"
  by (simp add: logout_def Let_def PrivateRoute_def split: option.split)


section \<open>The list of titles of a builder\<close>

lemma spread_no_hole: "Hole \<notin> set (spread xs)"
  by (auto simp: spread_def)

lemma length_spread: "length (spread xs) = length xs"
  by (simp add: spread_def)

text \<open>
  Removing by index drops the holes and at most one other slot: the count is carried
  through the enumeration from any start \<open>n\<close>, and nothing is dropped once \<open>n\<close> has passed
  the index.
\<close>

lemma filter_enumerate_count:
  "length (filter (\<lambda>e. e \<noteq> Hole) xs)
     \<le> Suc (length (filter (\<lambda>(j, e). e \<noteq> Hole \<and> j \<noteq> i) (enumerate n xs)))
   \<and> (i < n \<longrightarrow> length (filter (\<lambda>(j, e). e \<noteq> Hole \<and> j \<noteq> i) (enumerate n xs))
         = length (filter (\<lambda>e. e \<noteq> Hole) xs))"
proof (induction xs arbitrary: n)
  case Nil
  show ?case by simp
next
  case (Cons x xs)
  show ?case
  proof (cases "n = i")
    case True
    then have "i < Suc n" by simp
    with Cons.IH [of "Suc n"] True show ?thesis by simp
  next
    case False
    with Cons.IH [of "Suc n"] show ?thesis by auto
  qed
qed

lemma length_filter_index_neq:
  "length (filter (\<lambda>e. e \<noteq> Hole) xs) \<le> Suc (length (filter_index_neq xs i))"
  using filter_enumerate_count [of xs i 0] by (simp add: filter_index_neq_def)

lemma filter_index_neq_no_hole: "Hole \<notin> set (filter_index_neq xs i)"
  by (auto simp: filter_index_neq_def)

lemma filter_no_hole: "Hole \<notin> set xs \<Longrightarrow> filter (\<lambda>e. e \<noteq> Hole) xs = xs"
  by (induction xs) auto

lemma outline_ok_add: "outline_ok (spread xs @ [Str []])"
  by (simp add: outline_ok_def spread_no_hole)

lemma outline_ok_change:
  assumes "1 \<le> length xs"
  shows "outline_ok (set_index (spread xs) i (Str v))"
proof (cases "i < length (spread xs)")
  case True
  have "set ((spread xs)[i := Str v]) \<subseteq> insert (Str v) (set (spread xs))"
    by (rule set_update_subset_insert)
  with spread_no_hole [of xs] have "Hole \<notin> set ((spread xs)[i := Str v])"
    by auto
  with True show ?thesis
    by (simp add: outline_ok_def set_index_def)
next
  case False
  with assms show ?thesis
    by (simp add: outline_ok_def set_index_def filter_no_hole spread_no_hole length_spread)
qed

lemma outline_ok_remove:
  assumes "outline_ok xs" "1 < length xs"
  shows "outline_ok (filter_index_neq xs i)"
proof -
  have "2 \<le> length (filter (\<lambda>e. e \<noteq> Hole) xs)"
  proof (cases "Hole \<in> set xs")
    case True
    with assms(1) show ?thesis by (simp add: outline_ok_def)
  next
    case False
    with assms(2) show ?thesis by (simp add: filter_no_hole)
  qed
  with length_filter_index_neq [of xs i] have "1 \<le> length (filter_index_neq xs i)"
    by simp
  then show ?thesis
    by (simp add: outline_ok_def filter_index_neq_no_hole)
qed

lemma word_event_ok:
  "outline_ok (wb_outline st) \<Longrightarrow> outline_ok (wb_outline (word_event st e))"
  by (cases e)
     (simp_all add: handleAddSection_def handleRemoveSection_def handleSectionChange_def
        outline_ok_add outline_ok_change outline_ok_remove outline_ok_def [of "wb_outline st"])

lemma ppt_event_ok:
  "outline_ok (pb_slideTitles st) \<Longrightarrow> outline_ok (pb_slideTitles (ppt_event st e))"
  by (cases e)
     (simp_all add: handleAddSlide_def handleRemoveSlide_def handleSlideChange_def
        outline_ok_add outline_ok_change outline_ok_remove
        outline_ok_def [of "pb_slideTitles st"])

lemma word_events_ok:
  "outline_ok (wb_outline st) \<Longrightarrow> outline_ok (wb_outline (foldl word_event st evs))"
  by (induction evs arbitrary: st) (simp_all add: word_event_ok)

lemma ppt_events_ok:
  "outline_ok (pb_slideTitles st) \<Longrightarrow> outline_ok (pb_slideTitles (foldl ppt_event st evs))"
  by (induction evs arbitrary: st) (simp_all add: ppt_event_ok)

text \<open>
  C9: from the initial state \<open>['']\<close>, after every sequence of add, remove and change
  events the outline of the Word builder and the slide titles of the PowerPoint builder
  have at least one entry; the remove handlers change nothing when the list has at most
  one entry.
\<close>

theorem outline_never_empty:
  "1 \<le> length (wb_outline (foldl word_event (WordBuilder_init projectId) evs))
   \<and> 1 \<le> length (pb_slideTitles (foldl ppt_event (PPTBuilder_init projectId) evs))
   \<and> (length (wb_outline st) \<le> 1 \<longrightarrow> handleRemoveSection i st = st)
   \<and> (length (pb_slideTitles pst) \<le> 1 \<longrightarrow> handleRemoveSlide i pst = pst)"
proof -
  have "outline_ok (wb_outline (WordBuilder_init projectId))"
    by (simp add: WordBuilder_init_def outline_ok_def)
  then have w: "outline_ok (wb_outline (foldl word_event (WordBuilder_init projectId) evs))"
    by (rule word_events_ok)
  have "outline_ok (pb_slideTitles (PPTBuilder_init projectId))"
    by (simp add: PPTBuilder_init_def outline_ok_def)
  then have p: "outline_ok (pb_slideTitles (foldl ppt_event (PPTBuilder_init projectId) evs))"
    by (rule ppt_events_ok)
  from w p show ?thesis
    by (simp add: outline_ok_def handleRemoveSection_def handleRemoveSlide_def)
qed

theorem outline_never_empty_witness:
  "1 \<le> length (wb_outline (foldl word_event (WordBuilder_init (lit ''7''))
          [Add, Change 1 (lit ''Body''), Remove 0, Remove 0]))
   \<and> 1 \<le> length (pb_slideTitles (foldl ppt_event (PPTBuilder_init (lit ''7''))
          [Add, Change 1 (lit ''Body''), Remove 0, Remove 0]))
   \<and> length (wb_outline (WordBuilder_init (lit ''7''))) \<le> 1
   \<and> handleRemoveSection 0 (WordBuilder_init (lit ''7'')) = WordBuilder_init (lit ''7'')
   \<and> length (pb_slideTitles (PPTBuilder_init (lit ''7''))) \<le> 1
   \<and> handleRemoveSlide 0 (PPTBuilder_init (lit ''7'')) = PPTBuilder_init (lit ''7'')"
  using outline_never_empty [of "lit ''7''" "[Add, Change 1 (lit ''Body''), Remove 0, Remove 0]"
      "WordBuilder_init (lit ''7'')" 0 "PPTBuilder_init (lit ''7'')"]
  by (simp add: WordBuilder_init_def PPTBuilder_init_def)

section \<open>Saving a document configuration\<close>

text \<open>A string trims to the empty string exactly when it is empty or all whitespace.\<close>

lemma js_trim_blank: "js_trim s = [] \<longleftrightarrow> (\<forall>c \<in> set s. is_js_whitespace c)"
proof
  assume "js_trim s = []"
  then have all: "\<forall>x \<in> set (dropWhile is_js_whitespace s). is_js_whitespace x"
    by (simp add: js_trim_def)
  have "dropWhile is_js_whitespace s = []"
  proof (rule ccontr)
    assume ne: "dropWhile is_js_whitespace s \<noteq> []"
    then have "\<not> is_js_whitespace (hd (dropWhile is_js_whitespace s))"
      by (rule hd_dropWhile)
    moreover from ne have "hd (dropWhile is_js_whitespace s) \<in> set (dropWhile is_js_whitespace s)"
      by simp
    ultimately show False using all by blast
  qed
  then show "\<forall>c \<in> set s. is_js_whitespace c"
    by simp
next
  assume "\<forall>c \<in> set s. is_js_whitespace c"
  then have d: "dropWhile is_js_whitespace s = []"
    by simp
  show "js_trim s = []"
    by (simp only: js_trim_def d rev.simps dropWhile.simps)
qed

text \<open>
  The events of the rendered list (a change addresses an existing index) keep every slot
  a string.
\<close>

lemma strings_only_event:
  assumes "Undefined \<notin> set xs" "Hole \<notin> set xs"
  shows "Undefined \<notin> set (spread xs @ [Str []]) \<and> Hole \<notin> set (spread xs @ [Str []])"
    and "Undefined \<notin> set (filter_index_neq xs i) \<and> Hole \<notin> set (filter_index_neq xs i)"
    and "i < length xs \<Longrightarrow> Undefined \<notin> set (set_index (spread xs) i (Str v))
           \<and> Hole \<notin> set (set_index (spread xs) i (Str v))"
proof -
  from assms(2) have sp: "spread xs = xs"
    by (induction xs) (auto simp: spread_def)
  from assms show "Undefined \<notin> set (spread xs @ [Str []]) \<and> Hole \<notin> set (spread xs @ [Str []])"
    by (simp add: sp)
  have "set (filter_index_neq xs i) \<subseteq> set xs"
    by (auto simp: filter_index_neq_def in_set_enumerate_eq)
  with assms
  show "Undefined \<notin> set (filter_index_neq xs i) \<and> Hole \<notin> set (filter_index_neq xs i)"
    by auto
  have "set (xs[i := Str v]) \<subseteq> insert (Str v) (set xs)"
    by (rule set_update_subset_insert)
  with assms
  show "i < length xs \<Longrightarrow> Undefined \<notin> set (set_index (spread xs) i (Str v))
           \<and> Hole \<notin> set (set_index (spread xs) i (Str v))"
    by (auto simp: sp set_index_def)
qed

lemma filter_nonblank_strings:
  "Undefined \<notin> set xs \<Longrightarrow>
     filter_nonblank xs = Inr (filter (\<lambda>s. js_trim s \<noteq> []) (strings_of xs))"
  by (induction xs rule: filter_nonblank.induct) simp_all

lemma filter_nonblank_undefined:
  "Undefined \<in> set xs \<Longrightarrow> filter_nonblank xs = Inl TypeError"
  by (induction xs rule: filter_nonblank.induct) auto

lemma WordBuilder_posts:
  assumes "Post url b \<in> set (fst (snd (WordBuilder_handleSave api_post st)))"
  shows "url = lit ''/documents/word/'' @ wb_projectId st @ lit ''/config''
     \<and> b = WordConfig (filter (\<lambda>s. js_trim s \<noteq> []) (strings_of (wb_outline st))) (wb_context st)
     \<and> filter (\<lambda>s. js_trim s \<noteq> []) (strings_of (wb_outline st)) \<noteq> []"
proof (cases "Undefined \<in> set (wb_outline st)")
  case True
  with assms show ?thesis
    by (simp add: WordBuilder_handleSave_def filter_nonblank_undefined)
next
  case False
  with assms show ?thesis
    by (auto simp: WordBuilder_handleSave_def filter_nonblank_strings Let_def
        split: if_splits promise.splits)
qed

lemma WordBuilder_blank:
  assumes "Undefined \<notin> set (wb_outline st)"
    and "filter (\<lambda>s. js_trim s \<noteq> []) (strings_of (wb_outline st)) = []"
  shows "WordBuilder_handleSave api_post st =
      (st\<lparr>wb_error := lit ''Please add at least one section'', wb_saving := False\<rparr>, [], None)"
  using assms by (simp add: WordBuilder_handleSave_def filter_nonblank_strings)

lemma PPTBuilder_posts:
  assumes "Post url b \<in> set (fst (snd (PPTBuilder_handleSave api_post st)))"
  shows "url = lit ''/documents/powerpoint/'' @ pb_projectId st @ lit ''/config''
     \<and> b = PPTConfig (filter (\<lambda>s. js_trim s \<noteq> []) (strings_of (pb_slideTitles st))) (pb_context st)
     \<and> filter (\<lambda>s. js_trim s \<noteq> []) (strings_of (pb_slideTitles st)) \<noteq> []"
proof (cases "Undefined \<in> set (pb_slideTitles st)")
  case True
  with assms show ?thesis
    by (simp add: PPTBuilder_handleSave_def filter_nonblank_undefined)
next
  case False
  with assms show ?thesis
    by (auto simp: PPTBuilder_handleSave_def filter_nonblank_strings Let_def
        split: if_splits promise.splits)
qed

lemma PPTBuilder_blank:
  assumes "Undefined \<notin> set (pb_slideTitles st)"
    and "filter (\<lambda>s. js_trim s \<noteq> []) (strings_of (pb_slideTitles st)) = []"
  shows "PPTBuilder_handleSave api_post st =
      (st\<lparr>pb_error := lit ''Please add at least one slide'', pb_saving := False\<rparr>, [], None)"
  using assms by (simp add: PPTBuilder_handleSave_def filter_nonblank_strings)

lemma WordBuilder_does_post:
  assumes "Undefined \<notin> set (wb_outline st)"
    and "filter (\<lambda>s. js_trim s \<noteq> []) (strings_of (wb_outline st)) \<noteq> []"
  shows "fst (snd (WordBuilder_handleSave api_post st)) =
      Post (lit ''/documents/word/'' @ wb_projectId st @ lit ''/config'')
        (WordConfig (filter (\<lambda>s. js_trim s \<noteq> []) (strings_of (wb_outline st)))
           (wb_context st))
      # (case api_post (lit ''/documents/word/'' @ wb_projectId st @ lit ''/config'')
               (WordConfig (filter (\<lambda>s. js_trim s \<noteq> []) (strings_of (wb_outline st)))
                  (wb_context st)) of
           Resolved x \<Rightarrow> [Navigated (lit ''/projects/'' @ wb_projectId st)]
         | Rejected e \<Rightarrow> [])"
  using assms
  by (simp add: WordBuilder_handleSave_def filter_nonblank_strings Let_def split: promise.split)

lemma WordBuilder_throws:
  assumes "Undefined \<in> set (wb_outline st)"
  shows "WordBuilder_handleSave api_post st
           = (st\<lparr>wb_error := [], wb_saving := True\<rparr>, [], Some TypeError)"
  using assms by (simp add: WordBuilder_handleSave_def filter_nonblank_undefined)

lemma PPTBuilder_does_post:
  assumes "Undefined \<notin> set (pb_slideTitles st)"
    and "filter (\<lambda>s. js_trim s \<noteq> []) (strings_of (pb_slideTitles st)) \<noteq> []"
  shows "fst (snd (PPTBuilder_handleSave api_post st)) =
      Post (lit ''/documents/powerpoint/'' @ pb_projectId st @ lit ''/config'')
        (PPTConfig (filter (\<lambda>s. js_trim s \<noteq> []) (strings_of (pb_slideTitles st)))
           (pb_context st))
      # (case api_post (lit ''/documents/powerpoint/'' @ pb_projectId st @ lit ''/config'')
               (PPTConfig (filter (\<lambda>s. js_trim s \<noteq> []) (strings_of (pb_slideTitles st)))
                  (pb_context st)) of
           Resolved x \<Rightarrow> [Navigated (lit ''/projects/'' @ pb_projectId st)]
         | Rejected e \<Rightarrow> [])"
  using assms
  by (simp add: PPTBuilder_handleSave_def filter_nonblank_strings Let_def split: promise.split)

lemma PPTBuilder_throws:
  assumes "Undefined \<in> set (pb_slideTitles st)"
  shows "PPTBuilder_handleSave api_post st
           = (st\<lparr>pb_error := [], pb_saving := True\<rparr>, [], Some TypeError)"
  using assms by (simp add: PPTBuilder_handleSave_def filter_nonblank_undefined)

text \<open>
  C6: \<open>handleSave\<close> posts the titles of the outline (the slide titles) that are non-empty
  after trimming, in order, and only those: when at least one remains, its first effect
  is the post of exactly these titles and the context to the configuration endpoint of
  the project, followed by the navigation to the project if the request succeeds and by
  nothing otherwise; when none remains it makes no request and sets the error to
  \<open>Please add at least one section\<close> (\<open>... slide\<close>); and every request it makes is of
  that form. (At a slot holding \<open>undefined\<close>, which the events of the rendered list never
  produce, the filter's callback throws: the handler ends with the TypeError, having made
  no request.)
\<close>

theorem handleSave_requires_a_title:
  "(Undefined \<notin> set (wb_outline st)
      \<and> filter (\<lambda>s. js_trim s \<noteq> []) (strings_of (wb_outline st)) = [] \<longrightarrow>
      WordBuilder_handleSave api_post st =
        (st\<lparr>wb_error := lit ''Please add at least one section'', wb_saving := False\<rparr>, [], None))
   \<and> (Post url b \<in> set (fst (snd (WordBuilder_handleSave api_post st))) \<longrightarrow>
      url = lit ''/documents/word/'' @ wb_projectId st @ lit ''/config''
      \<and> b = WordConfig (filter (\<lambda>s. js_trim s \<noteq> []) (strings_of (wb_outline st)))
              (wb_context st)
      \<and> filter (\<lambda>s. js_trim s \<noteq> []) (strings_of (wb_outline st)) \<noteq> [])
   \<and> (Undefined \<notin> set (pb_slideTitles pst)
      \<and> filter (\<lambda>s. js_trim s \<noteq> []) (strings_of (pb_slideTitles pst)) = [] \<longrightarrow>
      PPTBuilder_handleSave api_post' pst =
        (pst\<lparr>pb_error := lit ''Please add at least one slide'', pb_saving := False\<rparr>, [], None))
   \<and> (Post url' b' \<in> set (fst (snd (PPTBuilder_handleSave api_post' pst))) \<longrightarrow>
      url' = lit ''/documents/powerpoint/'' @ pb_projectId pst @ lit ''/config''
      \<and> b' = PPTConfig (filter (\<lambda>s. js_trim s \<noteq> []) (strings_of (pb_slideTitles pst)))
               (pb_context pst)
      \<and> filter (\<lambda>s. js_trim s \<noteq> []) (strings_of (pb_slideTitles pst)) \<noteq> [])
   \<and> (Undefined \<notin> set (wb_outline st)
      \<and> filter (\<lambda>s. js_trim s \<noteq> []) (strings_of (wb_outline st)) \<noteq> [] \<longrightarrow>
      fst (snd (WordBuilder_handleSave api_post st)) =
        Post (lit ''/documents/word/'' @ wb_projectId st @ lit ''/config'')
          (WordConfig (filter (\<lambda>s. js_trim s \<noteq> []) (strings_of (wb_outline st)))
             (wb_context st))
        # (case api_post (lit ''/documents/word/'' @ wb_projectId st @ lit ''/config'')
                 (WordConfig (filter (\<lambda>s. js_trim s \<noteq> []) (strings_of (wb_outline st)))
                    (wb_context st)) of
             Resolved x \<Rightarrow> [Navigated (lit ''/projects/'' @ wb_projectId st)]
           | Rejected e \<Rightarrow> []))
   \<and> (Undefined \<notin> set (pb_slideTitles pst)
      \<and> filter (\<lambda>s. js_trim s \<noteq> []) (strings_of (pb_slideTitles pst)) \<noteq> [] \<longrightarrow>
      fst (snd (PPTBuilder_handleSave api_post' pst)) =
        Post (lit ''/documents/powerpoint/'' @ pb_projectId pst @ lit ''/config'')
          (PPTConfig (filter (\<lambda>s. js_trim s \<noteq> []) (strings_of (pb_slideTitles pst)))
             (pb_context pst))
        # (case api_post' (lit ''/documents/powerpoint/'' @ pb_projectId pst @ lit ''/config'')
                 (PPTConfig (filter (\<lambda>s. js_trim s \<noteq> []) (strings_of (pb_slideTitles pst)))
                    (pb_context pst)) of
             Resolved x \<Rightarrow> [Navigated (lit ''/projects/'' @ pb_projectId pst)]
           | Rejected e \<Rightarrow> []))
   \<and> (Undefined \<in> set (wb_outline st) \<longrightarrow>
      WordBuilder_handleSave api_post st
        = (st\<lparr>wb_error := [], wb_saving := True\<rparr>, [], Some TypeError))
   \<and> (Undefined \<in> set (pb_slideTitles pst) \<longrightarrow>
      PPTBuilder_handleSave api_post' pst
        = (pst\<lparr>pb_error := [], pb_saving := True\<rparr>, [], Some TypeError))"
  using WordBuilder_blank [of st api_post] WordBuilder_posts [of url b api_post st]
    PPTBuilder_blank [of pst api_post'] PPTBuilder_posts [of url' b' api_post' pst]
    WordBuilder_does_post [of st api_post] PPTBuilder_does_post [of pst api_post']
    WordBuilder_throws [of st api_post] PPTBuilder_throws [of pst api_post']
  by blast

theorem handleSave_requires_a_title_witness:
  "WordBuilder_handleSave (\<lambda>u b. Resolved ())
       ((WordBuilder_init (lit ''7''))\<lparr>wb_outline := [Str (lit '' ''), Str []]\<rparr>)
     = ((WordBuilder_init (lit ''7''))\<lparr>wb_outline := [Str (lit '' ''), Str []],
          wb_error := lit ''Please add at least one section'', wb_saving := False\<rparr>, [], None)
   \<and> fst (snd (WordBuilder_handleSave (\<lambda>u b. Resolved ())
           ((WordBuilder_init (lit ''7''))\<lparr>wb_outline := [Str (lit ''Intro''), Str (lit '' '')]\<rparr>)))
     = [Post (lit ''/documents/word/7/config'') (WordConfig [lit ''Intro''] []),
        Navigated (lit ''/projects/7'')]
   \<and> filter (\<lambda>s. js_trim s \<noteq> []) (strings_of [Str (lit ''Intro''), Str (lit '' '')])
       = [lit ''Intro'']
   \<and> WordBuilder_handleSave (\<lambda>u b. Resolved ())
       ((WordBuilder_init (lit ''7''))\<lparr>wb_outline := [Str (lit ''Intro''), Undefined]\<rparr>)
     = ((WordBuilder_init (lit ''7''))\<lparr>wb_outline := [Str (lit ''Intro''), Undefined],
          wb_saving := True\<rparr>, [], Some TypeError)
   \<and> PPTBuilder_handleSave (\<lambda>u b. Resolved ())
       ((PPTBuilder_init (lit ''7''))\<lparr>pb_slideTitles := [Str (lit '' ''), Str []]\<rparr>)
     = ((PPTBuilder_init (lit ''7''))\<lparr>pb_slideTitles := [Str (lit '' ''), Str []],
          pb_error := lit ''Please add at least one slide'', pb_saving := False\<rparr>, [], None)
   \<and> fst (snd (PPTBuilder_handleSave (\<lambda>u b. Resolved ())
           ((PPTBuilder_init (lit ''7''))\<lparr>pb_slideTitles := [Str (lit ''Intro''), Str (lit '' '')]\<rparr>)))
     = [Post (lit ''/documents/powerpoint/7/config'') (PPTConfig [lit ''Intro''] []),
        Navigated (lit ''/projects/7'')]
   \<and> PPTBuilder_handleSave (\<lambda>u b. Resolved ())
       ((PPTBuilder_init (lit ''7''))\<lparr>pb_slideTitles := [Str (lit ''Intro''), Undefined]\<rparr>)
     = ((PPTBuilder_init (lit ''7''))\<lparr>pb_slideTitles := [Str (lit ''Intro''), Undefined],
          pb_saving := True\<rparr>, [], Some TypeError)"
  using
    handleSave_requires_a_title [where
      st = "(WordBuilder_init (lit ''7''))\<lparr>wb_outline := [Str (lit '' ''), Str []]\<rparr>"
      and api_post = "\<lambda>u b. Resolved ()"
      and pst = "(PPTBuilder_init (lit ''7''))\<lparr>pb_slideTitles := [Str (lit '' ''), Str []]\<rparr>"
      and api_post' = "\<lambda>u b. Resolved ()"]
    handleSave_requires_a_title [where
      st = "(WordBuilder_init (lit ''7''))\<lparr>wb_outline := [Str (lit ''Intro''), Str (lit '' '')]\<rparr>"
      and api_post = "\<lambda>u b. Resolved ()"
      and url = "lit ''/documents/word/7/config''"
      and b = "WordConfig [lit ''Intro''] []"
      and pst = "(PPTBuilder_init (lit ''7''))\<lparr>pb_slideTitles := [Str (lit ''Intro''), Str (lit '' '')]\<rparr>"
      and api_post' = "\<lambda>u b. Resolved ()"
      and url' = "lit ''/documents/powerpoint/7/config''"
      and b' = "PPTConfig [lit ''Intro''] []"]
    handleSave_requires_a_title [where
      st = "(WordBuilder_init (lit ''7''))\<lparr>wb_outline := [Str (lit ''Intro''), Undefined]\<rparr>"
      and api_post = "\<lambda>u b. Resolved ()"
      and pst = "(PPTBuilder_init (lit ''7''))\<lparr>pb_slideTitles := [Str (lit ''Intro''), Undefined]\<rparr>"
      and api_post' = "\<lambda>u b. Resolved ()"]
  by (simp add: WordBuilder_handleSave_def WordBuilder_init_def PPTBuilder_handleSave_def
      PPTBuilder_init_def js_trim_def lit_def is_js_whitespace_def)

section \<open>The server's operations, step by step\<close>

lemma set_content_Inr:
  assumes "set_content actor item_id txt s = Inr (s', it')"
  shows "\<exists>it. find_item item_id s = Some it
           \<and> it' = it\<lparr>ci_content := Some txt,
                     ci_is_generated := (ci_is_generated it \<or> txt \<noteq> [])\<rparr>
           \<and> s' = s\<lparr>items := map (\<lambda>i. if ci_id i = item_id then it' else i) (items s)\<rparr>"
  using assms
  by (auto simp: set_content_def Let_def split: option.splits sum.splits)

lemma refine_Inr:
  assumes "refine gen actor item_id prompt content fb comments s = Inr (s', it', r)"
  shows "\<exists>txt s1. set_content actor item_id txt s = Inr (s1, it')
           \<and> rr_prompt r = prompt \<and> rr_comments r = comments \<and> rr_content_item_id r = item_id
           \<and> s' = s1\<lparr>refinements := refinements s1 @ [r], next_id := next_id s1 + 1,
                      now := now s1 + 1\<rparr>"
proof -
  from assms obtain it where it: "find_item item_id s = Some it"
    by (auto simp: refine_def split: option.splits)
  from assms it obtain t where
    t: "refined_text gen (case ci_content it of None \<Rightarrow> [] | Some c \<Rightarrow> c) prompt content = Inr t"
    by (auto simp: refine_def split: sum.splits)
  from assms it t obtain s1 it1 where sc: "set_content actor item_id t s = Inr (s1, it1)"
    by (auto simp: refine_def split: sum.splits)
  from sc it have "authorise actor (ci_project_id it) s \<noteq> Inl NotFound
      \<and> authorise actor (ci_project_id it) s \<noteq> Inl Forbidden"
    by (auto simp: set_content_def split: sum.splits)
  with assms it t sc have "it' = it1 \<and> rr_prompt r = prompt \<and> rr_comments r = comments
      \<and> rr_content_item_id r = item_id
      \<and> s' = s1\<lparr>refinements := refinements s1 @ [r], next_id := next_id s1 + 1,
                 now := now s1 + 1\<rparr>"
    by (auto simp: refine_def Let_def split: sum.splits)
  with sc show ?thesis by blast
qed

lemma create_revision_Inr:
  assumes "create_revision actor p s = Inr (s', rv)"
  shows "\<exists>its. get_items actor p s = Inr its
           \<and> rv = \<lparr>rv_id = next_id s, rv_project_id = p,
                   rv_revision_number =
                     (if revision_numbers p s = [] then 1
                      else Max (set (revision_numbers p s)) + 1),
                   rv_created_at = now s, rv_created_by = actor,
                   rv_snapshot = map (\<lambda>i. (ci_title i, ci_content i)) its\<rparr>
           \<and> s' = s\<lparr>revisions := revisions s @ [rv], next_id := next_id s + 1,
                     now := now s + 1\<rparr>"
  using assms
  by (auto simp: create_revision_def Let_def split: sum.splits)

lemma handle_revisions:
  "revisions (handle gen s rq) = revisions s
   \<or> (\<exists>actor p s' rv. rq = CreateRevision actor p
        \<and> create_revision actor p s = Inr (s', rv)
        \<and> handle gen s rq = s' \<and> revisions s' = revisions s @ [rv])"
proof (cases rq)
  case (SetContent actor item_id t)
  then show ?thesis
    by (auto split: sum.splits dest!: set_content_Inr)
next
  case (Refine actor item_id prompt content fb comments)
  then show ?thesis
    by (auto split: sum.splits dest!: refine_Inr set_content_Inr)
next
  case (CreateRevision actor p)
  then show ?thesis
    by (auto split: sum.splits dest!: create_revision_Inr)
qed

lemma Max_upt: "1 \<le> k \<Longrightarrow> Max (set [1..<Suc k]) = k"
  by (rule Max_eqI) auto

lemma create_revision_numbers:
  assumes "create_revision actor p s = Inr (s', rv)"
  shows "revision_numbers q s' =
           (if q = p then revision_numbers p s @ [rv_revision_number rv]
            else revision_numbers q s)"
    and "rv_revision_number rv =
           (if revision_numbers p s = [] then 1 else Max (set (revision_numbers p s)) + 1)"
  using create_revision_Inr [OF assms]
  by (auto simp: revision_numbers_def)

lemma create_revision_gapless:
  assumes cr: "create_revision actor p s = Inr (s', rv)"
    and inv: "revision_numbers q s
                = [1..<Suc (length (filter (\<lambda>r. rv_project_id r = q) (revisions s)))]"
  shows "revision_numbers q s'
           = [1..<Suc (length (filter (\<lambda>r. rv_project_id r = q) (revisions s')))]"
proof (cases "q = p")
  case False
  from create_revision_Inr [OF cr] have "revisions s' = revisions s @ [rv]" "rv_project_id rv = p"
    by auto
  with False have "filter (\<lambda>r. rv_project_id r = q) (revisions s')
      = filter (\<lambda>r. rv_project_id r = q) (revisions s)"
    by simp
  moreover from this have "revision_numbers q s' = revision_numbers q s"
    by (simp add: revision_numbers_def)
  ultimately show ?thesis
    using inv by (simp only:)
next
  case True
  define k where "k = length (filter (\<lambda>r. rv_project_id r = p) (revisions s))"
  from inv True have ns: "revision_numbers p s = [1..<Suc k]"
    by (simp only: k_def)
  from create_revision_Inr [OF cr] have app: "revisions s' = revisions s @ [rv]"
    and pr: "rv_project_id rv = p"
    by auto
  have num: "rv_revision_number rv = Suc k"
  proof (cases "k = 0")
    case True
    with ns have "revision_numbers p s = []" by simp
    with create_revision_numbers(2) [OF cr] True show ?thesis by simp
  next
    case False
    then have "Max (set [1..<Suc k]) = k" using Max_upt [of k] by simp
    moreover from False have "[1..<Suc k] \<noteq> []" by simp
    ultimately show ?thesis
      using create_revision_numbers(2) [OF cr] by (simp only: ns if_False)
  qed
  have "revision_numbers p s' = revision_numbers p s @ [rv_revision_number rv]"
    using create_revision_numbers(1) [OF cr, of p] by simp
  then have "revision_numbers p s' = [1..<Suc k] @ [Suc k]"
    by (simp only: ns num)
  also have "\<dots> = [1..<Suc (Suc k)]"
    by simp
  finally have "revision_numbers p s' = [1..<Suc (Suc k)]" .
  moreover from app pr have "length (filter (\<lambda>r. rv_project_id r = p) (revisions s')) = Suc k"
    by (simp add: k_def)
  ultimately show ?thesis
    using True by (simp only:)
qed

lemma handle_gapless:
  assumes "revision_numbers q s
             = [1..<Suc (length (filter (\<lambda>r. rv_project_id r = q) (revisions s)))]"
  shows "revision_numbers q (handle gen s rq)
           = [1..<Suc (length (filter (\<lambda>r. rv_project_id r = q) (revisions (handle gen s rq))))]"
  using handle_revisions [of gen s rq]
proof
  assume eq: "revisions (handle gen s rq) = revisions s"
  then have "revision_numbers q (handle gen s rq) = revision_numbers q s"
    by (simp add: revision_numbers_def)
  with assms eq show ?thesis by (simp only:)
next
  assume "\<exists>actor p s' rv. rq = CreateRevision actor p
        \<and> create_revision actor p s = Inr (s', rv)
        \<and> handle gen s rq = s' \<and> revisions s' = revisions s @ [rv]"
  then obtain actor p s' rv where "create_revision actor p s = Inr (s', rv)"
    and "handle gen s rq = s'" by blast
  with create_revision_gapless [OF _ assms] show ?thesis by blast
qed

lemma run_gapless:
  assumes "revision_numbers q s
             = [1..<Suc (length (filter (\<lambda>r. rv_project_id r = q) (revisions s)))]"
  shows "revision_numbers q (foldl (handle gen) s rqs)
           = [1..<Suc (length (filter (\<lambda>r. rv_project_id r = q)
                 (revisions (foldl (handle gen) s rqs))))]"
  using assms
proof (induction rqs arbitrary: s)
  case Nil
  then show ?case by (simp only: foldl_Nil)
next
  case (Cons rq rqs)
  from handle_gapless [OF Cons.prems] have
    "revision_numbers q (handle gen s rq)
       = [1..<Suc (length (filter (\<lambda>r. rv_project_id r = q) (revisions (handle gen s rq))))]" .
  from Cons.IH [OF this] show ?case by (simp only: foldl_Cons)
qed

text \<open>
  C1: in a store that starts without revisions, after every sequence of requests the
  revision numbers of each project, in order of creation, are \<open>1, 2, ..., n\<close>: they
  start at 1, have no gap, increase strictly and are pairwise distinct. Each successful
  \<open>create_revision\<close> assigns 1 when the project has no revision and the greatest
  existing number plus one otherwise, and appends it.
\<close>

theorem revision_numbers_gapless:
  "(revisions s0 = [] \<longrightarrow>
      revision_numbers p (foldl (handle gen) s0 rqs)
        = [1..<Suc (length (revision_numbers p (foldl (handle gen) s0 rqs)))]
      \<and> sorted_wrt (<) (revision_numbers p (foldl (handle gen) s0 rqs))
      \<and> distinct (revision_numbers p (foldl (handle gen) s0 rqs)))
   \<and> (create_revision actor p s = Inr (s', rv) \<longrightarrow>
      rv_revision_number rv
        = (if revision_numbers p s = [] then 1 else Max (set (revision_numbers p s)) + 1)
      \<and> revision_numbers p s' = revision_numbers p s @ [rv_revision_number rv])"
proof -
  have first: "revision_numbers p (foldl (handle gen) s0 rqs)
        = [1..<Suc (length (revision_numbers p (foldl (handle gen) s0 rqs)))]
      \<and> sorted_wrt (<) (revision_numbers p (foldl (handle gen) s0 rqs))
      \<and> distinct (revision_numbers p (foldl (handle gen) s0 rqs))"
    if empty: "revisions s0 = []"
  proof -
    define n where "n = length (filter (\<lambda>r. rv_project_id r = p)
        (revisions (foldl (handle gen) s0 rqs)))"
    from empty have "revision_numbers p s0
        = [1..<Suc (length (filter (\<lambda>r. rv_project_id r = p) (revisions s0)))]"
      by (simp add: revision_numbers_def)
    from run_gapless [OF this, of gen rqs]
    have ns: "revision_numbers p (foldl (handle gen) s0 rqs) = [1..<Suc n]"
      by (simp only: n_def)
    have "length [1..<Suc n] = n" by simp
    moreover have "sorted_wrt (<) [1..<Suc n]" by (rule sorted_wrt_upt)
    moreover have "distinct [1..<Suc n]" by (rule distinct_upt)
    ultimately show ?thesis by (simp only: ns)
  qed
  have second: "rv_revision_number rv
        = (if revision_numbers p s = [] then 1 else Max (set (revision_numbers p s)) + 1)
      \<and> revision_numbers p s' = revision_numbers p s @ [rv_revision_number rv]"
    if cr: "create_revision actor p s = Inr (s', rv)"
    using create_revision_numbers(2) [OF cr] create_revision_numbers(1) [OF cr, of p]
    by simp
  from first second show ?thesis by blast
qed


theorem revision_numbers_gapless_witness:
  "revision_numbers 10 (foldl (handle mock_gen) example_server
       [CreateRevision 1 10, SetContent 1 1 (lit ''New''), CreateRevision 2 10,
        CreateRevision 1 10]) = [1, 2]
   \<and> create_revision 1 10 example_server =
       Inr (example_server\<lparr>revisions :=
              [\<lparr>rv_id = 3, rv_project_id = 10, rv_revision_number = 1, rv_created_at = 0,
                rv_created_by = 1,
                rv_snapshot = [(lit ''Intro'', Some (lit ''Intro content'')),
                               (lit ''Body'', None)]\<rparr>],
              next_id := 4, now := 1\<rparr>,
            \<lparr>rv_id = 3, rv_project_id = 10, rv_revision_number = 1, rv_created_at = 0,
             rv_created_by = 1,
             rv_snapshot = [(lit ''Intro'', Some (lit ''Intro content'')),
                            (lit ''Body'', None)]\<rparr>)
   \<and> sorted_wrt (<) (revision_numbers 10 (foldl (handle mock_gen) example_server
       [CreateRevision 1 10, SetContent 1 1 (lit ''New''), CreateRevision 2 10,
        CreateRevision 1 10]))
   \<and> distinct (revision_numbers 10 (foldl (handle mock_gen) example_server
       [CreateRevision 1 10, SetContent 1 1 (lit ''New''), CreateRevision 2 10,
        CreateRevision 1 10]))"
  using revision_numbers_gapless [where
      ?s0.0 = example_server and p = 10 and gen = mock_gen
      and rqs = "[CreateRevision 1 10, SetContent 1 1 (lit ''New''), CreateRevision 2 10,
                  CreateRevision 1 10]"
      and actor = 1 and s = example_server
      and s' = "example_server\<lparr>revisions :=
              [\<lparr>rv_id = 3, rv_project_id = 10, rv_revision_number = 1, rv_created_at = 0,
                rv_created_by = 1,
                rv_snapshot = [(lit ''Intro'', Some (lit ''Intro content'')),
                               (lit ''Body'', None)]\<rparr>],
              next_id := 4, now := 1\<rparr>"
      and rv = "\<lparr>rv_id = 3, rv_project_id = 10, rv_revision_number = 1, rv_created_at = 0,
             rv_created_by = 1,
             rv_snapshot = [(lit ''Intro'', Some (lit ''Intro content'')),
                            (lit ''Body'', None)]\<rparr>"]
  by (simp add: example_server_def create_revision_def get_items_def authorise_def
      revision_numbers_def set_content_def find_item_def Let_def)

lemma run_revisions_grow:
  "\<exists>later. revisions (foldl (handle gen) s rqs) = revisions s @ later"
proof (induction rqs arbitrary: s)
  case Nil
  show ?case by simp
next
  case (Cons rq rqs)
  from handle_revisions [of gen s rq] obtain m1 where
    "revisions (handle gen s rq) = revisions s @ m1"
    by auto
  moreover from Cons.IH [of "handle gen s rq"] obtain m2 where
    "revisions (foldl (handle gen) (handle gen s rq) rqs) = revisions (handle gen s rq) @ m2"
    by blast
  ultimately show ?case by simp
qed

lemma find_first_match:
  assumes "\<forall>y \<in> set xs. \<not> P y" "P x"
  shows "find P (xs @ x # later) = Some x"
  using assms by (induction xs) simp_all

text \<open>
  C2: a revision returned by \<open>create_revision\<close> holds the (title, content) pairs the
  project's items had at that moment, and after every later sequence of requests
  (\<open>set_content\<close>, \<open>refine\<close>, further revisions) fetching it again returns the same
  revision, snapshot included.
\<close>

theorem snapshot_immutable:
  "create_revision actor p s = Inr (s1, rv) \<and> ids_fresh s \<longrightarrow>
     fetch_revision (rv_id rv) (foldl (handle gen) s1 rqs) = Some rv
     \<and> get_items actor p s = Inr (sort_key ci_ordinal (filter (\<lambda>i. ci_project_id i = p) (items s)))
     \<and> rv_snapshot rv = map (\<lambda>i. (ci_title i, ci_content i))
         (sort_key ci_ordinal (filter (\<lambda>i. ci_project_id i = p) (items s)))"
proof
  assume "create_revision actor p s = Inr (s1, rv) \<and> ids_fresh s"
  then have cr: "create_revision actor p s = Inr (s1, rv)" and fresh: "ids_fresh s"
    by simp_all
  from create_revision_Inr [OF cr] obtain its where
    its: "get_items actor p s = Inr its"
    and snap: "rv_snapshot rv = map (\<lambda>i. (ci_title i, ci_content i)) its"
    and rid: "rv_id rv = next_id s"
    and s1: "revisions s1 = revisions s @ [rv]"
    by auto
  from its have its_eq: "its = sort_key ci_ordinal (filter (\<lambda>i. ci_project_id i = p) (items s))"
    by (auto simp: get_items_def split: sum.splits)
  from run_revisions_grow [of gen s1 rqs] s1 obtain later where
    "revisions (foldl (handle gen) s1 rqs) = revisions s @ rv # later"
    by auto
  moreover from fresh rid have "\<forall>y \<in> set (revisions s). \<not> rv_id y = rv_id rv"
    by (auto simp: ids_fresh_def)
  ultimately have "fetch_revision (rv_id rv) (foldl (handle gen) s1 rqs) = Some rv"
    by (simp add: fetch_revision_def find_first_match)
  with its snap its_eq
  show "fetch_revision (rv_id rv) (foldl (handle gen) s1 rqs) = Some rv
     \<and> get_items actor p s = Inr (sort_key ci_ordinal (filter (\<lambda>i. ci_project_id i = p) (items s)))
     \<and> rv_snapshot rv = map (\<lambda>i. (ci_title i, ci_content i))
         (sort_key ci_ordinal (filter (\<lambda>i. ci_project_id i = p) (items s)))"
    by simp
qed

theorem snapshot_immutable_witness:
  "fetch_revision 3
     (foldl (handle mock_gen)
        (example_server\<lparr>revisions :=
           [\<lparr>rv_id = 3, rv_project_id = 10, rv_revision_number = 1, rv_created_at = 0,
             rv_created_by = 1,
             rv_snapshot = [(lit ''Intro'', Some (lit ''Intro content'')),
                            (lit ''Body'', None)]\<rparr>],
           next_id := 4, now := 1\<rparr>)
        [SetContent 1 1 (lit ''New''), Refine 1 2 None (Some (lit ''Body text'')) None None])
     = Some \<lparr>rv_id = 3, rv_project_id = 10, rv_revision_number = 1, rv_created_at = 0,
             rv_created_by = 1,
             rv_snapshot = [(lit ''Intro'', Some (lit ''Intro content'')),
                            (lit ''Body'', None)]\<rparr>
   \<and> map_option ci_content (find_item 1
       (foldl (handle mock_gen)
        (example_server\<lparr>revisions :=
           [\<lparr>rv_id = 3, rv_project_id = 10, rv_revision_number = 1, rv_created_at = 0,
             rv_created_by = 1,
             rv_snapshot = [(lit ''Intro'', Some (lit ''Intro content'')),
                            (lit ''Body'', None)]\<rparr>],
           next_id := 4, now := 1\<rparr>)
        [SetContent 1 1 (lit ''New''), Refine 1 2 None (Some (lit ''Body text'')) None None]))
     = Some (Some (lit ''New''))"
  using snapshot_immutable [where actor = 1 and p = 10 and s = example_server
      and gen = mock_gen
      and ?s1.0 = "example_server\<lparr>revisions :=
           [\<lparr>rv_id = 3, rv_project_id = 10, rv_revision_number = 1, rv_created_at = 0,
             rv_created_by = 1,
             rv_snapshot = [(lit ''Intro'', Some (lit ''Intro content'')),
                            (lit ''Body'', None)]\<rparr>],
           next_id := 4, now := 1\<rparr>"
      and rv = "\<lparr>rv_id = 3, rv_project_id = 10, rv_revision_number = 1, rv_created_at = 0,
             rv_created_by = 1,
             rv_snapshot = [(lit ''Intro'', Some (lit ''Intro content'')),
                            (lit ''Body'', None)]\<rparr>"
      and rqs = "[SetContent 1 1 (lit ''New''),
                  Refine 1 2 None (Some (lit ''Body text'')) None None]"]
  by (simp add: example_server_def create_revision_def get_items_def authorise_def
      revision_numbers_def set_content_def find_item_def Let_def ids_fresh_def
      refine_def refined_text_def fetch_revision_def)

text \<open>The hypothesis holds of every store the requests can reach from one without revisions.\<close>

lemma ids_fresh_handle: "ids_fresh s \<Longrightarrow> ids_fresh (handle gen s rq)"
proof (cases rq)
  case (SetContent actor item_id t)
  assume "ids_fresh s"
  with SetContent show ?thesis
    by (auto simp: ids_fresh_def split: sum.splits dest!: set_content_Inr)
next
  case (Refine actor item_id prompt content fb comments)
  assume "ids_fresh s"
  with Refine show ?thesis
    by (fastforce simp: ids_fresh_def split: sum.splits dest!: refine_Inr set_content_Inr)
next
  case (CreateRevision actor p)
  assume "ids_fresh s"
  with CreateRevision show ?thesis
    by (fastforce simp: ids_fresh_def split: sum.splits dest!: create_revision_Inr)
qed

lemma ids_fresh_run: "ids_fresh s \<Longrightarrow> ids_fresh (foldl (handle gen) s rqs)"
  by (induction rqs arbitrary: s) (simp_all add: ids_fresh_handle)

lemma ids_fresh_initial: "revisions s = [] \<Longrightarrow> ids_fresh s"
  by (simp add: ids_fresh_def)


lemma set_content_written:
  assumes "set_content actor item_id t s = Inr (s', it)"
  shows "ci_content it = Some t" and "t \<noteq> [] \<Longrightarrow> ci_is_generated it"
    and "find_item item_id s' = Some it" and "ci_id it = item_id"
    and "\<exists>it0. find_item item_id s = Some it0
           \<and> ci_is_generated it = (ci_is_generated it0 \<or> t \<noteq> [])"
proof -
  from set_content_Inr [OF assms] obtain it0 where
    f: "find_item item_id s = Some it0"
    and it: "it = it0\<lparr>ci_content := Some t,
                     ci_is_generated := (ci_is_generated it0 \<or> t \<noteq> [])\<rparr>"
    and s': "s' = s\<lparr>items := map (\<lambda>i. if ci_id i = item_id then it else i) (items s)\<rparr>"
    by blast
  from it show "ci_content it = Some t" and "t \<noteq> [] \<Longrightarrow> ci_is_generated it"
    by simp_all
  from f it show "\<exists>it0. find_item item_id s = Some it0
           \<and> ci_is_generated it = (ci_is_generated it0 \<or> t \<noteq> [])"
    by simp
  from f have id0: "ci_id it0 = item_id"
    by (auto simp: find_item_def dest: find_Some_iff [THEN iffD1])
  with it show id: "ci_id it = item_id" by simp
  have "find (\<lambda>i. ci_id i = item_id) (map (\<lambda>i. if ci_id i = item_id then it else i) xs) = Some it"
    if "find (\<lambda>i. ci_id i = item_id) xs = Some y" for xs y
    using that id by (induction xs) (auto split: if_splits)
  with f s' show "find_item item_id s' = Some it"
    by (simp add: find_item_def)
qed












section \<open>Refining an item\<close>

lemma handleRefine_blank:
  "js_trim (re_prompt st) = [] \<Longrightarrow>
     handleRefine api_post api_get st
       = (st\<lparr>re_error := lit ''Please enter a refinement prompt''\<rparr>, [])"
  by (simp add: handleRefine_def)

lemma fetchRefinements_no_post: "Post url b \<notin> set (snd (fetchRefinements api_get st))"
  by (simp add: fetchRefinements_def Let_def split: promise.split)

lemma handleRefine_posts:
  assumes "Post url b \<in> set (snd (handleRefine api_post api_get st))"
  shows "js_trim (re_prompt st) \<noteq> [] \<and> url = refine_endpoint st
     \<and> b = RefineBody \<lparr>rb_prompt = Some (re_prompt st), rb_content = re_content st,
            rb_feedback = or_null (re_feedback st), rb_comments = or_null (re_comments st)\<rparr>"
proof (cases "js_trim (re_prompt st) = []")
  case True
  with assms show ?thesis by (simp add: handleRefine_def)
next
  case False
  let ?b = "RefineBody \<lparr>rb_prompt = Some (re_prompt st), rb_content = re_content st,
            rb_feedback = or_null (re_feedback st), rb_comments = or_null (re_comments st)\<rparr>"
  show ?thesis
  proof (cases "api_post (refine_endpoint st) ?b")
    case (Resolved c)
    with assms False
      fetchRefinements_no_post [of url b api_get
        "st\<lparr>re_error := [], re_refining := True, re_content := c, re_prompt := []\<rparr>"]
    show ?thesis
      by (auto simp: handleRefine_def Let_def split: prod.splits)
  next
    case (Rejected err)
    with assms False show ?thesis
      by (auto simp: handleRefine_def Let_def)
  qed
qed

lemma refine_nothing_supplied:
  assumes "find_item item_id s = Some it" "authorise actor (ci_project_id it) s = Inr p"
    and "empty_content (ci_content it)"
  shows "refine gen actor item_id None None fb comments s = Inl ValidationError"
  using assms
  by (auto simp: refine_def refined_text_def empty_content_def)

text \<open>
  C4: on an item of empty content that exists and belongs to the caller, \<open>refine\<close> with
  neither prompt nor content fails with \<open>ValidationError\<close>. In the editor, a prompt that
  is empty or all whitespace makes \<open>handleRefine\<close> set the error
  \<open>Please enter a refinement prompt\<close> and make no request; every request it posts goes
  to the refine endpoint with the prompt, which is not blank, and the current content.
\<close>

theorem refine_needs_prompt_or_content:
  "(find_item item_id s = Some it \<and> authorise actor (ci_project_id it) s = Inr p
      \<and> empty_content (ci_content it) \<longrightarrow>
      refine gen actor item_id None None fb comments s = Inl ValidationError)
   \<and> (js_trim (re_prompt st) = [] \<longleftrightarrow> (\<forall>c \<in> set (re_prompt st). is_js_whitespace c))
   \<and> (js_trim (re_prompt st) = [] \<longrightarrow>
      handleRefine api_post api_get st
        = (st\<lparr>re_error := lit ''Please enter a refinement prompt''\<rparr>, []))
   \<and> (Post url b \<in> set (snd (handleRefine api_post api_get st)) \<longrightarrow>
      js_trim (re_prompt st) \<noteq> [] \<and> url = refine_endpoint st
      \<and> b = RefineBody \<lparr>rb_prompt = Some (re_prompt st), rb_content = re_content st,
             rb_feedback = or_null (re_feedback st),
             rb_comments = or_null (re_comments st)\<rparr>)"
  using refine_nothing_supplied [of item_id s it actor p gen fb comments]
    js_trim_blank [of "re_prompt st"] handleRefine_blank [of st api_post api_get]
    handleRefine_posts [of url b api_post api_get st]
  by blast

theorem refine_needs_prompt_or_content_witness:
  "refine mock_gen 1 2 None None None None example_server = Inl ValidationError
   \<and> js_trim (lit ''  '') = []
   \<and> handleRefine (\<lambda>u b. Resolved (lit ''shortened: Intro content'')) (\<lambda>u. Resolved [])
       (example_editor\<lparr>re_prompt := lit ''  ''\<rparr>)
     = (example_editor\<lparr>re_prompt := lit ''  '',
          re_error := lit ''Please enter a refinement prompt''\<rparr>, [])
   \<and> Post (lit ''/refinement/section/1/refine'')
        (RefineBody \<lparr>rb_prompt = Some (lit ''shorten''), rb_content = lit ''Intro content'',
           rb_feedback = None, rb_comments = None\<rparr>)
     \<in> set (snd (handleRefine (\<lambda>u b. Resolved (lit ''shortened: Intro content''))
          (\<lambda>u. Resolved []) (example_editor\<lparr>re_prompt := lit ''shorten''\<rparr>)))
   \<and> js_trim (lit ''shorten'') \<noteq> []"
  using
    refine_needs_prompt_or_content [where item_id = 2 and s = example_server
      and it = "\<lparr>ci_id = 2, ci_project_id = 10, ci_ordinal = 1, ci_title = lit ''Body'',
                 ci_content = None, ci_is_generated = False\<rparr>"
      and actor = 1 and p = "\<lparr>pr_id = 10, pr_owner = 1\<rparr>" and gen = mock_gen
      and fb = None and comments = None
      and st = "example_editor\<lparr>re_prompt := lit ''  ''\<rparr>"
      and api_post = "\<lambda>u b. Resolved (lit ''shortened: Intro content'')"
      and api_get = "\<lambda>u. Resolved []"]
    refine_needs_prompt_or_content [where item_id = 2 and s = example_server
      and it = "\<lparr>ci_id = 2, ci_project_id = 10, ci_ordinal = 1, ci_title = lit ''Body'',
                 ci_content = None, ci_is_generated = False\<rparr>"
      and actor = 1 and p = "\<lparr>pr_id = 10, pr_owner = 1\<rparr>" and gen = mock_gen
      and fb = None and comments = None
      and st = "example_editor\<lparr>re_prompt := lit ''shorten''\<rparr>"
      and api_post = "\<lambda>u b. Resolved (lit ''shortened: Intro content'')"
      and api_get = "\<lambda>u. Resolved []"
      and url = "lit ''/refinement/section/1/refine''"
      and b = "RefineBody \<lparr>rb_prompt = Some (lit ''shorten''), rb_content = lit ''Intro content'',
           rb_feedback = None, rb_comments = None\<rparr>"]
  by (simp add: example_server_def example_editor_def authorise_def find_item_def
      empty_content_def handleRefine_def fetchRefinements_def refine_endpoint_def or_null_def
      js_trim_def is_js_whitespace_def lit_def Let_def)

lemma refine_manual:
  assumes "find_item item_id s = Some it" "authorise actor (ci_project_id it) s = Inr p"
  shows "\<exists>s' it' r. refine gen actor item_id None (Some c) fb comments s = Inr (s', it', r)
           \<and> rr_prompt r = None \<and> rr_comments r = comments
           \<and> refinements s' = refinements s @ [r]
           \<and> ci_content it' = Some c \<and> find_item item_id s' = Some it'"
proof -
  let ?it' = "it\<lparr>ci_content := Some c, ci_is_generated := (ci_is_generated it \<or> c \<noteq> [])\<rparr>"
  let ?s1 = "s\<lparr>items := map (\<lambda>i. if ci_id i = item_id then ?it' else i) (items s)\<rparr>"
  from assms have sc: "set_content actor item_id c s = Inr (?s1, ?it')"
    by (simp add: set_content_def Let_def)
  let ?r = "\<lparr>rr_id = next_id ?s1, rr_content_item_id = item_id, rr_created_at = now ?s1,
             rr_prompt = None,
             rr_feedback = (case fb of None \<Rightarrow> NoFeedback | Some f \<Rightarrow> f),
             rr_comments = comments\<rparr>"
  let ?s' = "?s1\<lparr>refinements := refinements ?s1 @ [?r], next_id := next_id ?s1 + 1,
               now := now ?s1 + 1\<rparr>"
  from assms sc have "refine gen actor item_id None (Some c) fb comments s = Inr (?s', ?it', ?r)"
    by (simp add: refine_def refined_text_def Let_def)
  moreover from set_content_written(3) [OF sc] have "find_item item_id ?s' = Some ?it'"
    by (simp add: find_item_def)
  ultimately show ?thesis
    by simp
qed

lemma refine_manual_no_generation:
  "refine gen actor item_id None content fb comments s
     = refine gen' actor item_id None content fb comments s"
proof -
  have "refined_text gen current None content = refined_text gen' current None content"
    for current
    by (simp add: refined_text_def)
  then show ?thesis
    by (simp add: refine_def split: option.split sum.split)
qed

lemma handleSave_first_effect:
  "\<exists>rest. snd (RefinementEditor_handleSave api_post api_get st)
     = Post (refine_endpoint st)
         (RefineBody \<lparr>rb_prompt = None, rb_content = re_content st,
            rb_feedback = or_null (re_feedback st), rb_comments = or_null (re_comments st)\<rparr>)
       # rest"
  by (simp add: RefinementEditor_handleSave_def Let_def split: promise.split prod.split)

lemma handleSave_posts:
  assumes "Post url b \<in> set (snd (RefinementEditor_handleSave api_post api_get st))"
  shows "url = refine_endpoint st
     \<and> b = RefineBody \<lparr>rb_prompt = None, rb_content = re_content st,
            rb_feedback = or_null (re_feedback st), rb_comments = or_null (re_comments st)\<rparr>"
proof -
  let ?b = "RefineBody \<lparr>rb_prompt = None, rb_content = re_content st,
            rb_feedback = or_null (re_feedback st), rb_comments = or_null (re_comments st)\<rparr>"
  show ?thesis
  proof (cases "api_post (refine_endpoint st) ?b")
    case (Resolved c)
    with assms
      fetchRefinements_no_post [of url b api_get "st\<lparr>re_error := [], re_saving := True\<rparr>"]
    show ?thesis
      by (auto simp: RefinementEditor_handleSave_def Let_def split: prod.splits)
  next
    case (Rejected err)
    with assms show ?thesis
      by (auto simp: RefinementEditor_handleSave_def Let_def)
  qed
qed

text \<open>
  C5: \<open>handleSave\<close> of the editor always posts, first of all, to the refine endpoint a
  body with the edited content, with feedback and comments (null where the field of the
  editor is empty) and with no prompt, and posts nothing else. Served by \<open>refine\<close> for
  an item that exists and belongs to the caller, that request succeeds, stores the
  content and appends one Refinement Record, whose prompt is null; its outcome does not
  depend on the text generation, which is not called.
\<close>

theorem manual_edit_has_no_prompt:
  "(\<exists>rest. snd (RefinementEditor_handleSave api_post api_get st)
       = Post (refine_endpoint st)
           (RefineBody \<lparr>rb_prompt = None, rb_content = re_content st,
              rb_feedback = or_null (re_feedback st),
              rb_comments = or_null (re_comments st)\<rparr>) # rest)
   \<and> (Post url b \<in> set (snd (RefinementEditor_handleSave api_post api_get st)) \<longrightarrow>
      url = refine_endpoint st
      \<and> b = RefineBody \<lparr>rb_prompt = None, rb_content = re_content st,
             rb_feedback = or_null (re_feedback st),
             rb_comments = or_null (re_comments st)\<rparr>)
   \<and> or_null [] = None
   \<and> (find_item item_id s = Some it \<and> authorise actor (ci_project_id it) s = Inr p \<longrightarrow>
      (\<exists>s' it' r.
         refine gen actor item_id None (Some (re_content st)) fb (or_null (re_comments st)) s
           = Inr (s', it', r)
         \<and> rr_prompt r = None \<and> rr_comments r = or_null (re_comments st)
         \<and> refinements s' = refinements s @ [r]
         \<and> ci_content it' = Some (re_content st) \<and> find_item item_id s' = Some it'))
   \<and> refine gen actor item_id None (Some (re_content st)) fb (or_null (re_comments st)) s
     = refine gen' actor item_id None (Some (re_content st)) fb (or_null (re_comments st)) s"
  using handleSave_first_effect [of api_post api_get st]
    handleSave_posts [of url b api_post api_get st]
    refine_manual [of item_id s it actor p gen "re_content st" fb "or_null (re_comments st)"]
    refine_manual_no_generation [of gen actor item_id "Some (re_content st)" fb
      "or_null (re_comments st)" s gen']
  by (simp add: or_null_def)

theorem manual_edit_has_no_prompt_witness:
  "Post (lit ''/refinement/section/1/refine'')
      (RefineBody \<lparr>rb_prompt = None, rb_content = lit ''Edited'', rb_feedback = None,
         rb_comments = Some (lit ''typo'')\<rparr>)
     \<in> set (snd (RefinementEditor_handleSave (\<lambda>u b. Resolved ()) (\<lambda>u. Resolved [])
          (example_editor\<lparr>re_content := lit ''Edited'', re_comments := lit ''typo''\<rparr>)))
   \<and> (\<exists>s' it' r.
        refine mock_gen 1 1 None (Some (lit ''Edited'')) None (Some (lit ''typo'')) example_server
          = Inr (s', it', r)
        \<and> rr_prompt r = None \<and> refinements s' = [r] \<and> ci_content it' = Some (lit ''Edited''))"
  using
    manual_edit_has_no_prompt [where api_post = "\<lambda>u b. Resolved ()"
      and api_get = "\<lambda>u. Resolved []"
      and st = "example_editor\<lparr>re_content := lit ''Edited'', re_comments := lit ''typo''\<rparr>"
      and url = "lit ''/refinement/section/1/refine''"
      and b = "RefineBody \<lparr>rb_prompt = None, rb_content = lit ''Edited'', rb_feedback = None,
         rb_comments = Some (lit ''typo'')\<rparr>"
      and item_id = 1 and s = example_server
      and it = "\<lparr>ci_id = 1, ci_project_id = 10, ci_ordinal = 0, ci_title = lit ''Intro'',
                ci_content = Some (lit ''Intro content''), ci_is_generated = True\<rparr>"
      and actor = 1 and p = "\<lparr>pr_id = 10, pr_owner = 1\<rparr>" and gen = mock_gen
      and fb = None and gen' = mock_gen]
  by (simp add: example_server_def example_editor_def authorise_def find_item_def
      RefinementEditor_handleSave_def fetchRefinements_def refine_endpoint_def or_null_def
      lit_def Let_def) blast

end
